theory Spec2Isabelle
  imports Complex_Main
begin

section \<open>Values of the host language\<close>

text \<open>
  The controller \<open>evaluateAnswers\<close> is JavaScript. Its numbers are modelled as exact
  rationals together with the one non-number \<open>NaN\<close> that the code can produce
  (\<open>Number(undefined)\<close>, and everything computed from it). Rounding of doubles and the
  infinities are outside the model.
\<close>

datatype jsnum = NaN | Fin rat

text \<open>
  A value as \<open>JSON.parse\<close> delivers it, plus \<open>undefined\<close> (an array read out of
  range). The fields of an object are a key-value list; \<open>map_of\<close> reads a property.
\<close>

datatype jsval =
    JUndefined
  | JNull
  | JBool bool
  | JNumber rat
  | JString string
  | JArray "jsval list"
  | JObject "(string \<times> jsval) list"

text \<open>Truthiness, as \<open>!x\<close>, \<open>x || y\<close> and \<open>x && y\<close> read it.\<close>

fun truthy :: "jsval \<Rightarrow> bool" where
  "truthy JUndefined = False"
| "truthy JNull = False"
| "truthy (JBool b) = b"
| "truthy (JNumber n) = (n \<noteq> 0)"
| "truthy (JString s) = (s \<noteq> [])"
| "truthy (JArray xs) = True"
| "truthy (JObject kvs) = True"

text \<open>An optional string field: absent (\<open>undefined\<close>) or a string; the empty string is falsy.\<close>

fun truthyStr :: "string option \<Rightarrow> bool" where
  "truthyStr None = False"
| "truthyStr (Some s) = (s \<noteq> [])"

text \<open>\<open>x || ''\<close> on an optional string field.\<close>

fun orEmpty :: "string option \<Rightarrow> string" where
  "orEmpty None = []"
| "orEmpty (Some s) = s"

text \<open>\<open>a || b\<close> on two optional numeric fields: \<open>0\<close> and \<open>undefined\<close> are falsy.\<close>

fun orNum :: "rat option \<Rightarrow> rat option \<Rightarrow> rat option" where
  "orNum (Some a) b = (if a \<noteq> 0 then Some a else b)"
| "orNum None b = b"

text \<open>\<open>Number(x)\<close> on an optional numeric field: \<open>Number(undefined)\<close> is \<open>NaN\<close>.\<close>

fun toNumber :: "rat option \<Rightarrow> jsnum" where
  "toNumber None = NaN"
| "toNumber (Some a) = Fin a"

fun jsadd :: "jsnum \<Rightarrow> jsnum \<Rightarrow> jsnum" where
  "jsadd (Fin a) (Fin b) = Fin (a + b)"
| "jsadd _ _ = NaN"

fun jsmul :: "jsnum \<Rightarrow> jsnum \<Rightarrow> jsnum" where
  "jsmul (Fin a) (Fin b) = Fin (a * b)"
| "jsmul _ _ = NaN"

text \<open>\<open>Math.min\<close> of two numbers: \<open>NaN\<close> as soon as one argument is.\<close>

fun jsmin :: "jsnum \<Rightarrow> jsnum \<Rightarrow> jsnum" where
  "jsmin (Fin a) (Fin b) = Fin (min a b)"
| "jsmin _ _ = NaN"

fun jsfloor :: "jsnum \<Rightarrow> jsnum" where
  "jsfloor (Fin a) = Fin (of_int \<lfloor>a\<rfloor>)"
| "jsfloor NaN = NaN"

text \<open>\<open>a >= b\<close>: false as soon as one side is \<open>NaN\<close>.\<close>

fun jsge :: "jsnum \<Rightarrow> jsnum \<Rightarrow> bool" where
  "jsge (Fin a) (Fin b) = (b \<le> a)"
| "jsge _ _ = False"

section \<open>Strings\<close>

text \<open>
  Strings are modelled over ASCII: \<open>trim\<close> strips the ASCII white space of ECMAScript
  (tab, line feed, vertical tab, form feed, carriage return, space) from both ends and
  \<open>toUpperCase\<close> maps \<open>a\<close>..\<open>z\<close> to \<open>A\<close>..\<open>Z\<close> and leaves every other character.
\<close>

definition isSpace :: "char \<Rightarrow> bool" where
  "isSpace c = (of_char c \<in> {9, 10, 11, 12, 13, 32 :: nat})"

definition trim :: "string \<Rightarrow> string" where
  "trim s = rev (dropWhile isSpace (rev (dropWhile isSpace s)))"

definition toUpperChar :: "char \<Rightarrow> char" where
  "toUpperChar c =
     (let n = of_char c :: nat in if 97 \<le> n \<and> n \<le> 122 then char_of (n - 32) else c)"

definition toUpperCase :: "string \<Rightarrow> string" where
  "toUpperCase s = map toUpperChar s"

text \<open>The class \<open>\d\<close> of a JavaScript regular expression: the ten ASCII digits.\<close>

definition isDigit :: "char \<Rightarrow> bool" where
  "isDigit c = (48 \<le> (of_char c :: nat) \<and> (of_char c :: nat) \<le> 57)"

section \<open>Identifier normalisation and question matching\<close>

text \<open>
  \<open>qNum.match(/^\d+/)\<close> is the longest non-empty run of digits at the start of the
  string, or \<open>null\<close>; \<open>normalizeQNum\<close> returns that run, or the string itself.
\<close>

definition normalizeQNum :: "string \<Rightarrow> string" where
  "normalizeQNum qNum =
     (let match = takeWhile isDigit qNum in if match \<noteq> [] then match else qNum)"

text \<open>\<open>(x.questionNumber || '').toString().trim().toUpperCase()\<close>.\<close>

definition rawOf :: "string option \<Rightarrow> string" where
  "rawOf qn = toUpperCase (trim (orEmpty qn))"

section \<open>Data model\<close>

text \<open>
  The documents the controller reads and writes. A field that a document may lack is an
  option (\<open>None\<close> is \<open>undefined\<close>); \<open>maxMarks\<close> and the older \<open>marks\<close> of a
  question are read as \<open>questionObj.maxMarks || questionObj.marks\<close>.
\<close>

record answer =
  a_questionNumber :: "string option"
  answerText :: string

record question =
  q_questionNumber :: "string option"
  questionText :: "string option"
  q_question :: "string option"
  maxMarks :: "rat option"
  q_marks :: "rat option"

record exam =
  x_id :: string
  questions :: "question list"
  passMarks :: "rat option"

text \<open>
  One entry of \<open>evaluations\<close>. The entry pushed for an unmatched answer has no
  \<open>usedFallback\<close> property (\<open>None\<close>).
\<close>

record evaluation =
  e_questionNumber :: string
  e_marks :: jsnum
  e_feedback :: jsval
  usedFallback :: "bool option"

record student =
  rollNumber :: string
  examId :: "string option"
  answers :: "answer list"
  evaluated :: "evaluation list"
  totalMarks :: jsnum
  result :: string

record db =
  students :: "student list"
  exams :: "exam list"

text \<open>
  The request: the route parameter of \<open>POST /:rollNumber\<close> and the two fields that
  the controller takes from the body.
\<close>

record request =
  p_rollNumber :: string
  b_rollNumber :: "string option"
  b_examId :: "string option"

record reply =
  message :: string
  r_evaluations :: "evaluation list"
  r_totalMarks :: jsnum
  r_result :: string

datatype response = Json400 string | Json404 string | Json200 reply

section \<open>The world outside the controller\<close>

text \<open>
  What one call of the scoring service gives back: \<open>Rejected\<close> when \<open>fetch\<close>,
  \<open>response.json()\<close> or the read of the text throws, otherwise the value of
  \<open>data?.choices?.[0]?.text\<close> (\<open>None\<close> when that is \<open>undefined\<close>).
\<close>

datatype fetched = Rejected | Replied "string option"

text \<open>
  The library and the outside world are parameters: \<open>ObjectId.isValid\<close>,
  \<open>JSON.parse\<close> (\<open>None\<close> when it throws), the scoring service, which answers the
  \<open>n\<close>-th call from the question and the answer that the prompt is built from, and
  \<open>Math.random\<close>, whose \<open>n\<close>-th draw is \<open>random env n\<close>.
\<close>

record env =
  isValid :: "string \<Rightarrow> bool"
  parseJSON :: "string \<Rightarrow> jsval option"
  fetch :: "nat \<Rightarrow> question \<Rightarrow> answer \<Rightarrow> fetched"
  random :: "nat \<Rightarrow> rat"

text \<open>How many calls of the scoring service and how many random draws have been made.\<close>

record world =
  calls :: nat
  draws :: nat

text \<open>\<open>Math.random\<close> returns a number in \<open>[0, 1)\<close>.\<close>

definition unitRandom :: "env \<Rightarrow> bool" where
  "unitRandom env = (\<forall>n. 0 \<le> random env n \<and> random env n < 1)"

section \<open>Helpers of the controller\<close>

definition fallbackFeedbacks :: "string list" where
  "fallbackFeedbacks =
     [''Answer is somewhat related to the topic.'',
      ''Fair attempt, but lacks depth.'',
      ''Contains partial relevant information.'',
      ''Needs improvement, but shows effort.'',
      ''Answer lacks clarity but is understandable.'']"

text \<open>\<open>xs[index]\<close> on an array of strings: \<open>undefined\<close> unless the index is in range.\<close>

fun arrayAt :: "string list \<Rightarrow> jsnum \<Rightarrow> jsval" where
  "arrayAt xs (Fin i) =
     (if i = of_int \<lfloor>i\<rfloor> \<and> 0 \<le> i \<and> nat \<lfloor>i\<rfloor> < length xs then JString (xs ! nat \<lfloor>i\<rfloor>)
      else JUndefined)"
| "arrayAt xs NaN = JUndefined"

definition getRandomFeedback :: "rat \<Rightarrow> jsval" where
  "getRandomFeedback r =
     (let index = jsfloor (jsmul (Fin r) (Fin (of_nat (length fallbackFeedbacks))))
      in arrayAt fallbackFeedbacks index)"

definition getRandomMarks :: "rat \<Rightarrow> rat option \<Rightarrow> jsnum" where
  "getRandomMarks r mx = jsfloor (jsmul (Fin r) (jsadd (toNumber mx) (Fin 1)))"

text \<open>\<open>parsed.k\<close>: only an object made by \<open>JSON.parse\<close> can have the property.\<close>

fun property :: "jsval \<Rightarrow> string \<Rightarrow> jsval" where
  "property (JObject kvs) k = (case map_of kvs k of Some v \<Rightarrow> v | None \<Rightarrow> JUndefined)"
| "property _ k = JUndefined"

text \<open>\<open>questionObj.maxMarks || questionObj.marks\<close>.\<close>

definition maxOf :: "question \<Rightarrow> rat option" where
  "maxOf questionObj = orNum (maxMarks questionObj) (q_marks questionObj)"

section \<open>The evaluation pipeline\<close>

text \<open>
  \<open>exam.questions.find(...)\<close>: the first question whose normalised identifier equals
  the normalised identifier of the answer.
\<close>

definition findQuestion :: "exam \<Rightarrow> string \<Rightarrow> question option" where
  "findQuestion exam normQNum =
     find (\<lambda>q. normalizeQNum (rawOf (q_questionNumber q)) = normQNum) (questions exam)"

text \<open>
  The body of the inner \<open>try\<close>: \<open>Some (marks, feedback)\<close> when it completes,
  \<open>None\<close> when it throws (transport error, empty text, malformed JSON, missing marks or
  feedback).
\<close>

definition tryGrade ::
  "env \<Rightarrow> world \<Rightarrow> question \<Rightarrow> answer \<Rightarrow> (jsnum \<times> jsval) option" where
  "tryGrade env w questionObj ans =
     (case fetch env (calls w) questionObj ans of
        Rejected \<Rightarrow> None
      | Replied text \<Rightarrow>
          (let rawText = map_option trim text in
           if \<not> truthyStr rawText then None
           else case parseJSON env (orEmpty rawText) of
                  None \<Rightarrow> None
                | Some parsed \<Rightarrow>
                    (case property parsed ''marks'' of
                       JNumber m \<Rightarrow>
                         if truthy parsed \<and> truthy (property parsed ''feedback'')
                         then Some (jsmin (Fin m) (toNumber (maxOf questionObj)),
                                    property parsed ''feedback'')
                         else None
                     | _ \<Rightarrow> None)))"

text \<open>One turn of the loop over \<open>student.answers\<close>: the entry pushed and the new world.\<close>

definition evalAnswer :: "env \<Rightarrow> exam \<Rightarrow> world \<Rightarrow> answer \<Rightarrow> evaluation \<times> world" where
  "evalAnswer env exam w ans =
     (let rawQNum = rawOf (a_questionNumber ans);
          normQNum = normalizeQNum rawQNum
      in case findQuestion exam normQNum of
           None \<Rightarrow>
             (\<lparr>e_questionNumber = rawQNum, e_marks = Fin 0,
               e_feedback = JString ''Question not found in exam config.'',
               usedFallback = None\<rparr>, w)
         | Some questionObj \<Rightarrow>
             (case tryGrade env w questionObj ans of
                Some (marks, feedback) \<Rightarrow>
                  (\<lparr>e_questionNumber = rawQNum, e_marks = marks, e_feedback = feedback,
                    usedFallback = Some False\<rparr>,
                   w\<lparr>calls := calls w + 1\<rparr>)
              | None \<Rightarrow>
                  (\<lparr>e_questionNumber = rawQNum,
                    e_marks = getRandomMarks (random env (draws w)) (maxOf questionObj),
                    e_feedback = getRandomFeedback (random env (draws w + 1)),
                    usedFallback = Some True\<rparr>,
                   w\<lparr>calls := calls w + 1, draws := draws w + 2\<rparr>)))"

text \<open>The loop, with \<open>evaluations.push\<close> as the growing accumulator.\<close>

fun evalLoop ::
  "env \<Rightarrow> exam \<Rightarrow> answer list \<Rightarrow> evaluation list \<Rightarrow> world \<Rightarrow> evaluation list \<times> world" where
  "evalLoop env exam [] evaluations w = (evaluations, w)"
| "evalLoop env exam (ans # rest) evaluations w =
     (case evalAnswer env exam w ans of
        (e, w') \<Rightarrow> evalLoop env exam rest (evaluations @ [e]) w')"

text \<open>\<open>evaluations.reduce((sum, e) => sum + e.marks, 0)\<close>.\<close>

definition sumMarks :: "evaluation list \<Rightarrow> jsnum" where
  "sumMarks evaluations = foldl (\<lambda>acc e. jsadd acc (e_marks e)) (Fin 0) evaluations"

text \<open>\<open>student.totalMarks >= exam.passMarks ? 'Pass' : 'Fail'\<close>.\<close>

definition verdict :: "jsnum \<Rightarrow> rat option \<Rightarrow> string" where
  "verdict tot pass = (if jsge tot (toNumber pass) then ''Pass'' else ''Fail'')"

section \<open>Storage\<close>

definition findOne :: "string \<Rightarrow> student list \<Rightarrow> student option" where
  "findOne rn ss = find (\<lambda>s. rollNumber s = rn) ss"

definition findById :: "string \<Rightarrow> exam list \<Rightarrow> exam option" where
  "findById i xs = find (\<lambda>x. x_id x = i) xs"

text \<open>
  \<open>student.save()\<close> writes the document back in place of the one that \<open>findOne\<close>
  loaded: the first with its roll number, which the controller never changes.
\<close>

fun save :: "student \<Rightarrow> student list \<Rightarrow> student list" where
  "save s [] = []"
| "save s (t # ts) = (if rollNumber t = rollNumber s then s # ts else t # save s ts)"

section \<open>The controller\<close>

text \<open>
  \<open>if (!student.examId) student.examId = examId\<close>: a student with no exam bound takes
  the exam identifier of the request; a bound student keeps the own one.
\<close>

definition bindExam :: "student \<Rightarrow> string option \<Rightarrow> student" where
  "bindExam student0 eid =
     (if \<not> truthyStr (examId student0) then student0\<lparr>examId := eid\<rparr> else student0)"

text \<open>
  The controller from the loop to the response, for the student and the exam it has
  loaded: the reply, the document that \<open>student.save()\<close> stores, and the new world.
\<close>

definition evaluateStudent ::
  "env \<Rightarrow> exam \<Rightarrow> student \<Rightarrow> world \<Rightarrow> reply \<times> student \<times> world" where
  "evaluateStudent env exam student1 w =
     (case evalLoop env exam (answers student1) [] w of
        (evaluations, w') \<Rightarrow>
          (let tot = sumMarks evaluations;
               res = verdict tot (passMarks exam)
           in (\<lparr>message = ''Evaluation complete'', r_evaluations = evaluations,
                 r_totalMarks = tot, r_result = res\<rparr>,
               student1\<lparr>evaluated := evaluations, totalMarks := tot, result := res,
                 examId := Some (x_id exam)\<rparr>,
               w')))"

text \<open>
  \<open>evaluateAnswers\<close> reads \<open>req.body\<close> only. It answers 400 when an identifier is
  missing or the exam identifier is not well formed, 404 when the student or the exam
  is not stored, and otherwise evaluates, stores and reports. Failures of the storage
  itself (the outer \<open>catch\<close>) are outside the model.
\<close>

definition evaluateAnswers :: "env \<Rightarrow> db \<Rightarrow> world \<Rightarrow> request \<Rightarrow> response \<times> db \<times> world" where
  "evaluateAnswers env d w req =
     (if \<not> truthyStr (b_rollNumber req) \<or> \<not> truthyStr (b_examId req)
      then (Json400 ''rollNumber and examId are required'', d, w)
      else if \<not> isValid env (orEmpty (b_examId req))
      then (Json400 ''Invalid examId'', d, w)
      else case findOne (orEmpty (b_rollNumber req)) (students d) of
             None \<Rightarrow> (Json404 ''Student not found'', d, w)
           | Some student0 \<Rightarrow>
               (let student1 = bindExam student0 (b_examId req)
                in case findById (orEmpty (examId student1)) (exams d) of
                     None \<Rightarrow> (Json404 ''Exam not found'', d, w)
                   | Some exam \<Rightarrow>
                       (case evaluateStudent env exam student1 w of
                          (r, student2, w') \<Rightarrow>
                            (Json200 r, d\<lparr>students := save student2 (students d)\<rparr>, w'))))"

section \<open>Properties to be checked, in the words of the specification\<close>

text \<open>
  The identifier normalisation of the matcher: trim, uppercase, then
  \<open>normalizeQNum\<close>, as the loop applies it to an answer and to a question.
\<close>

definition normOf :: "string option \<Rightarrow> string" where
  "normOf qn = normalizeQNum (rawOf qn)"

text \<open>
  A grading failure, mode by mode: transport error, empty or absent text, text that
  does not parse, no numeric \<open>marks\<close>, missing or empty \<open>feedback\<close>.
\<close>

fun isNumber :: "jsval \<Rightarrow> bool" where
  "isNumber (JNumber n) = True"
| "isNumber _ = False"

definition gradingFailure :: "env \<Rightarrow> world \<Rightarrow> question \<Rightarrow> answer \<Rightarrow> bool" where
  "gradingFailure env w q a =
     (case fetch env (calls w) q a of
        Rejected \<Rightarrow> True
      | Replied None \<Rightarrow> True
      | Replied (Some t) \<Rightarrow>
          trim t = [] \<or>
          (case parseJSON env (trim t) of
             None \<Rightarrow> True
           | Some parsed \<Rightarrow>
               \<not> isNumber (property parsed ''marks'') \<or>
               \<not> truthy (property parsed ''feedback'')))"

text \<open>A maximum that is a whole number and not negative.\<close>

definition wholeMax :: "rat \<Rightarrow> bool" where
  "wholeMax m = (0 \<le> m \<and> of_int \<lfloor>m\<rfloor> = m)"

text \<open>
  The maximum marks of a question: its \<open>maxMarks\<close>, or its \<open>marks\<close> when
  \<open>maxMarks\<close> is absent or zero.
\<close>

definition maximumOf :: "question \<Rightarrow> rat option" where
  "maximumOf q =
     (case maxMarks q of
        None \<Rightarrow> q_marks q
      | Some m \<Rightarrow> if m = 0 then q_marks q else Some m)"

text \<open>
  The numeric \<open>marks\<close> in the reply of the scoring service to the call made in world
  \<open>w\<close>, when the reply has a text that parses to a value with such a field.
\<close>

definition oracleMarks :: "env \<Rightarrow> world \<Rightarrow> question \<Rightarrow> answer \<Rightarrow> rat option" where
  "oracleMarks env w q a =
     (case fetch env (calls w) q a of
        Rejected \<Rightarrow> None
      | Replied None \<Rightarrow> None
      | Replied (Some t) \<Rightarrow>
          (case parseJSON env (trim t) of
             None \<Rightarrow> None
           | Some parsed \<Rightarrow>
               (case property parsed ''marks'' of JNumber p \<Rightarrow> Some p | _ \<Rightarrow> None)))"

text \<open>
  The marks of the entry \<open>e\<close> pushed for the answer \<open>a\<close> in world \<open>w\<close>. Zero when
  no question matches. When the matched question has a numeric maximum \<open>m\<close>: after a
  grading failure the fallback is used and the marks are the floor of the draw times
  \<open>m + 1\<close>, between 0 and \<open>m\<close> when \<open>m\<close> is whole and not negative and the draws
  lie in \<open>[0, 1)\<close>; otherwise the marks are the smaller of the marks \<open>p\<close> of the reply
  and \<open>m\<close>, so at most \<open>m\<close>, and not negative exactly when neither \<open>p\<close> nor \<open>m\<close> is.
\<close>

definition marksBounded :: "env \<Rightarrow> exam \<Rightarrow> world \<Rightarrow> answer \<Rightarrow> evaluation \<Rightarrow> bool" where
  "marksBounded env exam w a e =
     (case findQuestion exam (normOf (a_questionNumber a)) of
        None \<Rightarrow> e_marks e = Fin 0
      | Some q \<Rightarrow>
          (case (maximumOf q, e_marks e) of
             (None, _) \<Rightarrow> True
           | (Some m, NaN) \<Rightarrow> False
           | (Some m, Fin v) \<Rightarrow>
               if gradingFailure env w q a
               then usedFallback e = Some True
                    \<and> v = of_int \<lfloor>random env (draws w) * (m + 1)\<rfloor>
                    \<and> (unitRandom env \<and> wholeMax m \<longrightarrow> 0 \<le> v \<and> v \<le> m)
               else usedFallback e = Some False
                    \<and> (case oracleMarks env w q a of
                          None \<Rightarrow> False
                        | Some p \<Rightarrow> v = min p m \<and> v \<le> m \<and> (0 \<le> v) = (0 \<le> p \<and> 0 \<le> m))))"

section \<open>Example data\<close>

text \<open>
  The exam of the end-to-end scenarios: one question \<open>1\<close> worth 10 marks, pass mark 5;
  a second exam; a student with no exam bound; three replies of the scoring service.
\<close>

definition question1 :: question where
  "question1 = \<lparr>q_questionNumber = Some ''1'', questionText = Some ''What is a set?'',
     q_question = None, maxMarks = Some 10, q_marks = None\<rparr>"

definition examA :: exam where
  "examA = \<lparr>x_id = ''exam-a'', questions = [question1], passMarks = Some 5\<rparr>"

definition examB :: exam where
  "examB = \<lparr>x_id = ''exam-b'', questions = [], passMarks = Some 0\<rparr>"

definition answer1 :: answer where
  "answer1 = \<lparr>a_questionNumber = Some ''1-a'', answerText = ''A collection.''\<rparr>"

definition answer2 :: answer where
  "answer2 = \<lparr>a_questionNumber = Some ''2'', answerText = ''Unknown.''\<rparr>"

definition studentR :: student where
  "studentR = \<lparr>rollNumber = ''R1'', examId = None, answers = [answer1, answer2],
     evaluated = [], totalMarks = Fin 0, result = []\<rparr>"

definition dbR :: db where
  "dbR = \<lparr>students = [studentR], exams = [examA, examB]\<rparr>"

definition world0 :: world where
  "world0 = \<lparr>calls = 0, draws = 0\<rparr>"

definition parseExample :: "string \<Rightarrow> jsval option" where
  \<open>parseExample s =
     (if s = ''{"marks": 15, "feedback": "Excellent"}''
      then Some (JObject [(''marks'', JNumber 15), (''feedback'', JString ''Excellent'')])
      else if s = ''{"marks": -5, "feedback": "Poor"}''
      then Some (JObject [(''marks'', JNumber (- 5)), (''feedback'', JString ''Poor'')])
      else if s = ''{"marks": 7}''
      then Some (JObject [(''marks'', JNumber 7)])
      else None)\<close>

definition envWith :: "fetched \<Rightarrow> rat \<Rightarrow> env" where
  "envWith f r = \<lparr>isValid = (\<lambda>s. s \<noteq> ''bad''), parseJSON = parseExample,
     fetch = (\<lambda>n q a. f), random = (\<lambda>n. r)\<rparr>"

definition requestOf :: "string \<Rightarrow> string \<Rightarrow> request" where
  "requestOf p e = \<lparr>p_rollNumber = p, b_rollNumber = Some ''R1'', b_examId = Some e\<rparr>"

text \<open>The same question worth 20 marks, and an exam that has it.\<close>

definition questionTwenty :: question where
  "questionTwenty = question1\<lparr>maxMarks := Some 20\<rparr>"

definition examTwenty :: exam where
  "examTwenty = \<lparr>x_id = ''exam-t'', questions = [questionTwenty], passMarks = Some 5\<rparr>"

text \<open>A question worth two and a half marks, and an exam that has it.\<close>

definition questionHalf :: question where
  "questionHalf = \<lparr>q_questionNumber = Some ''1'', questionText = Some ''What is a set?'',
     q_question = None, maxMarks = Some (5 / 2), q_marks = None\<rparr>"

definition examHalf :: exam where
  "examHalf = \<lparr>x_id = ''exam-h'', questions = [questionHalf], passMarks = Some 1\<rparr>"

definition replyOf :: "string \<Rightarrow> fetched" where
  "replyOf t = Replied (Some t)"

text \<open>
  Two calls in a row for the same student while the scoring service is down: the first
  names exam \<open>exam-a\<close>, the second, on the storage the first left, names \<open>exam-b\<close>.
\<close>

definition afterFirst :: "response \<times> db \<times> world" where
  "afterFirst = evaluateAnswers (envWith Rejected 0) dbR world0 (requestOf ''R1'' ''exam-a'')"

definition afterSecond :: "response \<times> db \<times> world" where
  "afterSecond =
     evaluateAnswers (envWith Rejected 0) (fst (snd afterFirst)) (snd (snd afterFirst))
       (requestOf ''R1'' ''exam-b'')"

section \<open>Identifier normalisation\<close>

subsection \<open>Trimming and upper case\<close>

lemma isSpace_toUpperChar: "isSpace (toUpperChar c) = isSpace c"
  by (auto simp: isSpace_def toUpperChar_def Let_def)

lemma isDigit_toUpperChar: "isDigit (toUpperChar c) = isDigit c"
  by (auto simp: isDigit_def toUpperChar_def Let_def)

lemma toUpperChar_idem: "toUpperChar (toUpperChar c) = toUpperChar c"
  by (auto simp: toUpperChar_def Let_def)

lemma isDigit_not_isSpace: "isDigit c \<Longrightarrow> \<not> isSpace c"
  by (auto simp: isDigit_def isSpace_def)

lemma isDigit_upper_same: "isDigit c \<Longrightarrow> toUpperChar c = c"
  by (auto simp: isDigit_def toUpperChar_def Let_def)

lemma toUpperCase_idem: "toUpperCase (toUpperCase s) = toUpperCase s"
  by (simp add: toUpperCase_def toUpperChar_idem)

lemma dropWhile_isSpace_upper:
  "dropWhile isSpace (map toUpperChar s) = map toUpperChar (dropWhile isSpace s)"
  by (induction s) (auto simp: isSpace_toUpperChar)

lemma trim_toUpperCase: "trim (toUpperCase s) = toUpperCase (trim s)"
  by (simp add: trim_def toUpperCase_def dropWhile_isSpace_upper rev_map)

lemma last_dropWhile_same: "dropWhile P xs \<noteq> [] \<Longrightarrow> last (dropWhile P xs) = last xs"
  by (induction xs) (auto split: if_splits)

lemma dropWhile_head_same: "xs = [] \<or> \<not> P (hd xs) \<Longrightarrow> dropWhile P xs = xs"
  by (cases xs) auto

lemma trim_same:
  assumes "s = [] \<or> (\<not> isSpace (hd s) \<and> \<not> isSpace (last s))"
  shows "trim s = s"
proof (cases "s = []")
  case True
  then show ?thesis by (simp add: trim_def)
next
  case False
  with assms have h: "\<not> isSpace (hd s)" and l: "\<not> isSpace (last s)" by auto
  have fr: "dropWhile isSpace s = s" using h by (intro dropWhile_head_same) simp
  have "hd (rev s) = last s" using False by (simp add: hd_rev)
  then have bk: "dropWhile isSpace (rev s) = rev s"
    using l by (intro dropWhile_head_same) simp
  show ?thesis by (simp add: trim_def fr bk)
qed

lemma trim_ends:
  "trim s = [] \<or> (\<not> isSpace (hd (trim s)) \<and> \<not> isSpace (last (trim s)))"
proof (cases "trim s = []")
  case True
  then show ?thesis by simp
next
  case False
  define a where "a = dropWhile isSpace s"
  define b where "b = dropWhile isSpace (rev a)"
  have t: "trim s = rev b" by (simp add: trim_def a_def b_def)
  with False have bne: "b \<noteq> []" by simp
  then have ane: "a \<noteq> []" by (auto simp: b_def)
  have "\<not> isSpace (hd b)" using bne unfolding b_def by (rule hd_dropWhile)
  then have l: "\<not> isSpace (last (trim s))" using bne by (simp add: t last_rev)
  have "last b = last (rev a)" using bne unfolding b_def by (rule last_dropWhile_same)
  then have "hd (trim s) = hd a" using bne ane by (simp add: t hd_rev last_rev)
  moreover have "\<not> isSpace (hd a)" using ane unfolding a_def by (rule hd_dropWhile)
  ultimately show ?thesis using l by simp
qed

lemma trim_idem: "trim (trim s) = trim s"
  by (rule trim_same) (rule trim_ends)

lemma rawOf_rawOf: "rawOf (Some (rawOf qn)) = rawOf qn"
  by (simp add: rawOf_def trim_toUpperCase trim_idem toUpperCase_idem)

lemma digits_raw_same:
  assumes "\<forall>c \<in> set ds. isDigit c"
  shows "rawOf (Some ds) = ds"
proof -
  have "trim ds = ds"
  proof (rule trim_same)
    show "ds = [] \<or> (\<not> isSpace (hd ds) \<and> \<not> isSpace (last ds))"
      using assms by (cases "ds = []") (auto intro!: isDigit_not_isSpace)
  qed
  moreover have "toUpperCase ds = ds"
    using assms by (simp add: toUpperCase_def isDigit_upper_same map_idI)
  ultimately show ?thesis by (simp add: rawOf_def)
qed

lemma normOf_idem: "normOf (Some (normOf qn)) = normOf qn"
proof (cases "takeWhile isDigit (rawOf qn) = []")
  case True
  then have "normOf qn = rawOf qn" by (simp add: normOf_def normalizeQNum_def)
  then show ?thesis using True by (simp add: normOf_def rawOf_rawOf normalizeQNum_def)
next
  case False
  define ds where "ds = takeWhile isDigit (rawOf qn)"
  have n: "normOf qn = ds" using False by (simp add: normOf_def normalizeQNum_def ds_def)
  have all: "\<forall>c \<in> set ds. isDigit c" unfolding ds_def by (auto dest: set_takeWhileD)
  then have "rawOf (Some ds) = ds" by (rule digits_raw_same)
  moreover have "takeWhile isDigit ds = ds" using all by (simp add: takeWhile_eq_all_conv)
  ultimately show ?thesis using False n by (simp add: normOf_def normalizeQNum_def ds_def)
qed

lemma findQuestion_Some:
  "findQuestion exam n = Some q \<Longrightarrow> q \<in> set (questions exam) \<and> normOf (q_questionNumber q) = n"
  by (auto simp: findQuestion_def normOf_def find_Some_iff)

lemma findQuestion_exists:
  assumes "q \<in> set (questions exam)" and "normOf (q_questionNumber q) = n"
  shows "\<exists>q'. findQuestion exam n = Some q'"
proof (cases "findQuestion exam n")
  case None
  with assms show ?thesis by (auto simp: findQuestion_def normOf_def find_None_iff)
next
  case (Some q')
  then show ?thesis by simp
qed

subsection \<open>Normalisation is idempotent; which identifiers reach question 1\<close>

text \<open>
  C2, as the code has it. Normalising a normalised identifier changes nothing, and
  \<open>1-A\<close> and \<open> 1 \<close> (with blanks around) normalise to \<open>1\<close>, so each finds a question of an
  exam that has one whose identifier normalises to \<open>1\<close>. The run of digits is taken
  at the start of the string only: \<open>Q1a\<close> normalises to \<open>Q1A\<close> and never finds such
  a question.
\<close>

theorem normalize_idempotent_examples:
  assumes "q \<in> set (questions exam)" and "normOf (q_questionNumber q) = ''1''"
  shows "normOf (Some (normOf qn)) = normOf qn
    \<and> normOf (Some ''1-A'') = ''1'' \<and> normOf (Some '' 1 '') = ''1''
    \<and> normOf (Some ''Q1a'') = ''Q1A''
    \<and> (\<exists>q'. findQuestion exam (normOf (Some ''1-A'')) = Some q'
             \<and> findQuestion exam (normOf (Some '' 1 '')) = Some q'
             \<and> normOf (q_questionNumber q') = ''1'')
    \<and> findQuestion exam (normOf (Some ''Q1a'')) \<noteq> Some q"
proof -
  have a: "normOf (Some ''1-A'') = ''1''" by code_simp
  have b: "normOf (Some '' 1 '') = ''1''" by code_simp
  have c: "normOf (Some ''Q1a'') = ''Q1A''" by code_simp
  obtain q' where q': "findQuestion exam ''1'' = Some q'"
    using findQuestion_exists [OF assms] by blast
  then have "normOf (q_questionNumber q') = ''1''" by (simp add: findQuestion_Some)
  moreover have "findQuestion exam ''Q1A'' \<noteq> Some q"
    using assms(2) by (auto dest: findQuestion_Some)
  ultimately show ?thesis using q' by (simp add: a b c normOf_idem)
qed

text \<open>The claim as written fails: \<open>Q1a\<close> does not normalise to \<open>1\<close>.\<close>

theorem normalize_Q1a_counterexample: "normOf (Some ''Q1a'') \<noteq> ''1''"
  by code_simp

theorem normalize_idempotent_examples_witness:
  "question1 \<in> set (questions examA) \<and> normOf (q_questionNumber question1) = ''1''
   \<and> findQuestion examA (normOf (Some ''1-A'')) = Some question1
   \<and> findQuestion examA (normOf (Some '' 1 '')) = Some question1
   \<and> findQuestion examA (normOf (Some ''Q1a'')) = None"
proof -
  have m: "question1 \<in> set (questions examA)" by (simp add: examA_def)
  have n: "normOf (q_questionNumber question1) = ''1''" by code_simp
  have "findQuestion examA (normOf (Some ''Q1a'')) = None" by code_simp
  then show ?thesis
    using normalize_idempotent_examples [OF m n, of None] m n
    by (auto simp: examA_def dest: findQuestion_Some)
qed

section \<open>The loop and its turns\<close>

subsection \<open>The accumulator\<close>

lemma evalLoop_acc:
  "evalLoop env exam as acc w =
     (acc @ fst (evalLoop env exam as [] w), snd (evalLoop env exam as [] w))"
proof (induction as arbitrary: acc w)
  case Nil
  show ?case by simp
next
  case (Cons a as)
  obtain e w1 where step: "evalAnswer env exam w a = (e, w1)" by (cases "evalAnswer env exam w a")
  have l: "evalLoop env exam (a # as) acc w = evalLoop env exam as (acc @ [e]) w1"
    by (simp add: step)
  have r: "evalLoop env exam (a # as) [] w = evalLoop env exam as [e] w1"
    by (simp add: step)
  have la: "evalLoop env exam as (acc @ [e]) w1 =
      ((acc @ [e]) @ fst (evalLoop env exam as [] w1), snd (evalLoop env exam as [] w1))"
    by (rule Cons.IH)
  have ra: "evalLoop env exam as [e] w1 =
      ([e] @ fst (evalLoop env exam as [] w1), snd (evalLoop env exam as [] w1))"
    by (rule Cons.IH)
  show ?case unfolding l r la ra by simp
qed

lemma evalLoop_Cons:
  "evalLoop env exam (a # as) [] w =
     (fst (evalAnswer env exam w a) # fst (evalLoop env exam as [] (snd (evalAnswer env exam w a))),
      snd (evalLoop env exam as [] (snd (evalAnswer env exam w a))))"
proof -
  obtain e w1 where step: "evalAnswer env exam w a = (e, w1)" by (cases "evalAnswer env exam w a")
  have "evalLoop env exam (a # as) [] w = evalLoop env exam as [e] w1" by (simp add: step)
  also have "\<dots> = ([e] @ fst (evalLoop env exam as [] w1), snd (evalLoop env exam as [] w1))"
    by (rule evalLoop_acc)
  finally show ?thesis by (simp add: step)
qed

lemma evalLoop_all2:
  assumes "\<And>w a. P a (fst (evalAnswer env exam w a))"
  shows "list_all2 P as (fst (evalLoop env exam as [] w))"
proof (induction as arbitrary: w)
  case Nil
  show ?case by simp
next
  case (Cons a as)
  show ?case unfolding evalLoop_Cons by (simp add: assms Cons.IH)
qed

lemma evaluateStudent_reply:
  "fst (evaluateStudent env exam st w) =
     \<lparr>message = ''Evaluation complete'',
      r_evaluations = fst (evalLoop env exam (answers st) [] w),
      r_totalMarks = sumMarks (fst (evalLoop env exam (answers st) [] w)),
      r_result = verdict (sumMarks (fst (evalLoop env exam (answers st) [] w))) (passMarks exam)\<rparr>"
  by (simp add: evaluateStudent_def Let_def split: prod.splits)

lemma evaluateStudent_saved:
  "fst (snd (evaluateStudent env exam st w)) =
     st\<lparr>evaluated := r_evaluations (fst (evaluateStudent env exam st w)),
        totalMarks := r_totalMarks (fst (evaluateStudent env exam st w)),
        result := r_result (fst (evaluateStudent env exam st w)),
        examId := Some (x_id exam)\<rparr>"
  by (simp add: evaluateStudent_def Let_def split: prod.splits)

subsection \<open>The three outcomes of one answer\<close>

lemma evalAnswer_unmatched:
  assumes "findQuestion exam (normOf (a_questionNumber a)) = None"
  shows "evalAnswer env exam w a =
     (\<lparr>e_questionNumber = rawOf (a_questionNumber a), e_marks = Fin 0,
       e_feedback = JString ''Question not found in exam config.'',
       usedFallback = None\<rparr>, w)"
  using assms by (simp add: evalAnswer_def normOf_def Let_def)

lemma evalAnswer_graded:
  assumes "findQuestion exam (normOf (a_questionNumber a)) = Some q"
    and "tryGrade env w q a = Some (mk, fb)"
  shows "evalAnswer env exam w a =
     (\<lparr>e_questionNumber = rawOf (a_questionNumber a), e_marks = mk, e_feedback = fb,
       usedFallback = Some False\<rparr>, w\<lparr>calls := calls w + 1\<rparr>)"
  using assms by (simp add: evalAnswer_def normOf_def Let_def)

lemma evalAnswer_fallback:
  assumes "findQuestion exam (normOf (a_questionNumber a)) = Some q"
    and "tryGrade env w q a = None"
  shows "evalAnswer env exam w a =
     (\<lparr>e_questionNumber = rawOf (a_questionNumber a),
       e_marks = getRandomMarks (random env (draws w)) (maxOf q),
       e_feedback = getRandomFeedback (random env (draws w + 1)),
       usedFallback = Some True\<rparr>, w\<lparr>calls := calls w + 1, draws := draws w + 2\<rparr>)"
  using assms by (simp add: evalAnswer_def normOf_def Let_def)

lemma evalAnswer_questionNumber:
  "e_questionNumber (fst (evalAnswer env exam w a)) = rawOf (a_questionNumber a)"
  by (simp add: evalAnswer_def Let_def split: option.splits prod.splits)

lemma property_marks_truthy: "property parsed k = JNumber n \<Longrightarrow> truthy parsed"
  by (cases parsed) auto

lemma tryGrade_None_iff: "tryGrade env w q a = None \<longleftrightarrow> gradingFailure env w q a"
proof (cases "fetch env (calls w) q a")
  case Rejected
  then show ?thesis by (simp add: tryGrade_def gradingFailure_def)
next
  case (Replied ot)
  show ?thesis
  proof (cases ot)
    case None
    with Replied show ?thesis by (simp add: tryGrade_def gradingFailure_def)
  next
    case (Some t)
    show ?thesis
    proof (cases "parseJSON env (trim t)")
      case None
      with Replied Some show ?thesis by (simp add: tryGrade_def gradingFailure_def)
    next
      case (Some parsed)
      with Replied \<open>ot = Some t\<close> show ?thesis
        by (cases "property parsed ''marks''")
           (auto simp: tryGrade_def gradingFailure_def dest: property_marks_truthy)
    qed
  qed
qed

lemma tryGrade_Some:
  assumes "tryGrade env w q a = Some (mk, fb)"
  shows "\<exists>p. mk = jsmin (Fin p) (toNumber (maxOf q))"
  using assms
  by (auto simp: tryGrade_def Let_def split: fetched.splits option.splits jsval.splits if_splits)

lemma tryGrade_reply:
  assumes "fetch env (calls w) q a = Replied (Some t)" and "trim t \<noteq> []"
    and "parseJSON env (trim t) = Some parsed"
    and "property parsed ''marks'' = JNumber p"
    and "truthy (property parsed ''feedback'')"
  shows "tryGrade env w q a =
     Some (jsmin (Fin p) (toNumber (maxOf q)), property parsed ''feedback'')"
  using assms property_marks_truthy [OF assms(4)] by (simp add: tryGrade_def)

subsection \<open>Random marks\<close>

lemma getRandomMarks_Some: "getRandomMarks r (Some m) = Fin (of_int \<lfloor>r * (m + 1)\<rfloor>)"
  by (simp add: getRandomMarks_def)

lemma random_floor_bounds:
  fixes r m :: rat
  assumes "0 \<le> r" and "r < 1" and "wholeMax m"
  shows "0 \<le> \<lfloor>r * (m + 1)\<rfloor> \<and> of_int \<lfloor>r * (m + 1)\<rfloor> \<le> m
    \<and> 0 \<le> r * (m + 1) \<and> r * (m + 1) < m + 1"
proof -
  from assms(3) have m0: "0 \<le> m" and mw: "of_int \<lfloor>m\<rfloor> = m" by (simp_all add: wholeMax_def)
  have lo: "0 \<le> r * (m + 1)" using assms(1) m0 by simp
  have "r * (m + 1) < 1 * (m + 1)" using assms(2) m0 by (intro mult_strict_right_mono) simp_all
  then have hi: "r * (m + 1) < m + 1" by simp
  moreover have "of_int (\<lfloor>m\<rfloor> + 1) = m + 1" using mw by (simp only: of_int_add of_int_1)
  ultimately have "r * (m + 1) < of_int (\<lfloor>m\<rfloor> + 1)" by (simp only:)
  then have "\<lfloor>r * (m + 1)\<rfloor> < \<lfloor>m\<rfloor> + 1" by (simp only: floor_less_iff)
  then have "\<lfloor>r * (m + 1)\<rfloor> \<le> \<lfloor>m\<rfloor>" by simp
  then have "(of_int \<lfloor>r * (m + 1)\<rfloor> :: rat) \<le> of_int \<lfloor>m\<rfloor>" by (simp only: of_int_le_iff)
  then have "of_int \<lfloor>r * (m + 1)\<rfloor> \<le> m" by (simp only: mw)
  moreover have "0 \<le> \<lfloor>r * (m + 1)\<rfloor>" using lo by simp
  ultimately show ?thesis using lo hi by simp
qed

subsection \<open>Failure and success of the grading\<close>

lemma maxOf_maximumOf: "maxOf q = maximumOf q"
  by (cases "maxMarks q") (simp_all add: maxOf_def maximumOf_def)

lemma evalAnswer_failure:
  assumes "findQuestion exam (normOf (a_questionNumber a)) = Some q"
    and "gradingFailure env w q a"
  shows "usedFallback (fst (evalAnswer env exam w a)) = Some True
    \<and> e_marks (fst (evalAnswer env exam w a)) = getRandomMarks (random env (draws w)) (maxOf q)"
proof -
  have "tryGrade env w q a = None" using assms(2) by (simp add: tryGrade_None_iff)
  then show ?thesis by (simp add: evalAnswer_fallback [OF assms(1)])
qed

lemma tryGrade_success:
  assumes "\<not> gradingFailure env w q a"
  shows "\<exists>p fb. oracleMarks env w q a = Some p
    \<and> tryGrade env w q a = Some (jsmin (Fin p) (toNumber (maxOf q)), fb)"
proof (cases "fetch env (calls w) q a")
  case Rejected
  with assms show ?thesis by (simp add: gradingFailure_def)
next
  case (Replied ot)
  with assms obtain t where ot: "ot = Some t" by (cases ot) (auto simp: gradingFailure_def)
  note r = Replied [unfolded ot]
  from assms r have ne: "trim t \<noteq> []" by (auto simp: gradingFailure_def)
  from assms r ne obtain parsed where pj: "parseJSON env (trim t) = Some parsed"
    by (cases "parseJSON env (trim t)") (auto simp: gradingFailure_def)
  from assms r ne pj have n: "isNumber (property parsed ''marks'')"
    and fb: "truthy (property parsed ''feedback'')" by (auto simp: gradingFailure_def)
  from n obtain p where mk: "property parsed ''marks'' = JNumber p"
    by (cases "property parsed ''marks''") auto
  have "oracleMarks env w q a = Some p" by (simp add: oracleMarks_def r pj mk)
  moreover note tryGrade_reply [OF r ne pj mk fb]
  ultimately show ?thesis by blast
qed

lemma evalAnswer_success:
  assumes "findQuestion exam (normOf (a_questionNumber a)) = Some q"
    and "\<not> gradingFailure env w q a"
  shows "\<exists>p. oracleMarks env w q a = Some p
    \<and> usedFallback (fst (evalAnswer env exam w a)) = Some False
    \<and> e_marks (fst (evalAnswer env exam w a)) = jsmin (Fin p) (toNumber (maxOf q))"
proof -
  from tryGrade_success [OF assms(2)] obtain p fb where
    p: "oracleMarks env w q a = Some p"
    and t: "tryGrade env w q a = Some (jsmin (Fin p) (toNumber (maxOf q)), fb)" by blast
  show ?thesis using p by (simp add: evalAnswer_graded [OF assms(1) t])
qed

section \<open>Unmatched answers\<close>

text \<open>
  C6. An answer whose identifier matches no question of the exam gets an entry with
  marks 0 and the feedback \<open>Question not found in exam config.\<close>; the world is
  unchanged (the scoring service is not called, nothing is drawn), and the loop goes on
  with the next answer.
\<close>

theorem unmatched_answer:
  assumes "findQuestion exam (normOf (a_questionNumber a)) = None"
  shows "evalAnswer env exam w a =
           (\<lparr>e_questionNumber = rawOf (a_questionNumber a), e_marks = Fin 0,
             e_feedback = JString ''Question not found in exam config.'',
             usedFallback = None\<rparr>, w)
    \<and> evalLoop env exam (a # rest) acc w =
           evalLoop env exam rest
             (acc @ [\<lparr>e_questionNumber = rawOf (a_questionNumber a), e_marks = Fin 0,
                      e_feedback = JString ''Question not found in exam config.'',
                      usedFallback = None\<rparr>]) w"
  using evalAnswer_unmatched [OF assms] by simp

theorem unmatched_answer_witness:
  "findQuestion examA (normOf (a_questionNumber answer2)) = None
   \<and> evalAnswer (envWith Rejected 0) examA world0 answer2 =
       (\<lparr>e_questionNumber = ''2'', e_marks = Fin 0,
         e_feedback = JString ''Question not found in exam config.'',
         usedFallback = None\<rparr>, world0)"
proof -
  have h: "findQuestion examA (normOf (a_questionNumber answer2)) = None" by code_simp
  have r: "rawOf (a_questionNumber answer2) = ''2''" by code_simp
  show ?thesis
    using unmatched_answer [OF h, of "envWith Rejected 0" world0 "[]" "[]"] h r by simp
qed

section \<open>The fallback\<close>

text \<open>
  C7. The claim: after a grading failure of any kind the entry has
  \<open>usedFallback = true\<close> and its marks are an integer between 0 and the maximum of the
  matched question. The code, for a question worth two and a half marks when the
  scoring service cannot be reached and the draw is nine tenths: the fallback is used
  and awards \<open>floor (0.9 * 3.5) = 3\<close> marks, more than the maximum.
\<close>

theorem fallback_exceeds_fraction:
  "maxMarks questionHalf = Some (5 / 2)
   \<and> findQuestion examHalf (normOf (a_questionNumber answer1)) = Some questionHalf
   \<and> fetch (envWith Rejected (9 / 10)) (calls world0) questionHalf answer1 = Rejected
   \<and> random (envWith Rejected (9 / 10)) (draws world0) = 9 / 10
   \<and> fst (evalAnswer (envWith Rejected (9 / 10)) examHalf world0 answer1) =
       \<lparr>e_questionNumber = ''1-A'', e_marks = Fin 3,
        e_feedback = JString ''Answer lacks clarity but is understandable.'',
        usedFallback = Some True\<rparr>
   \<and> \<not> jsge (Fin (5 / 2)) (Fin 3)"
  by code_simp

section \<open>The reply of the scoring service\<close>

text \<open>
  C8. When the scoring service replies with a text that parses to a value with a
  numeric \<open>marks\<close> and a truthy \<open>feedback\<close>, the marks recorded are the smaller of
  the parsed marks and the \<open>maxMarks\<close> of the matched question, and the feedback
  recorded is the parsed feedback, unchanged; the fallback is not used.
\<close>

theorem oracle_marks_clamped:
  assumes "findQuestion exam (normOf (a_questionNumber a)) = Some q"
    and "fetch env (calls w) q a = Replied (Some t)" and "trim t \<noteq> []"
    and "parseJSON env (trim t) = Some parsed"
    and "property parsed ''marks'' = JNumber p"
    and "truthy (property parsed ''feedback'')"
    and "maxMarks q = Some m" and "m \<noteq> 0"
  shows "fst (evalAnswer env exam w a) =
           \<lparr>e_questionNumber = rawOf (a_questionNumber a), e_marks = Fin (min p m),
            e_feedback = property parsed ''feedback'', usedFallback = Some False\<rparr>"
proof -
  have mx: "maxOf q = Some m" using assms(7,8) by (simp add: maxOf_def)
  have "tryGrade env w q a = Some (jsmin (Fin p) (toNumber (maxOf q)), property parsed ''feedback'')"
    using assms(2-6) by (rule tryGrade_reply)
  then show ?thesis using evalAnswer_graded [OF assms(1)] by (simp add: mx)
qed

text \<open>
  Scenario D: marks of 15 for the ten-mark question are recorded as 10; for the same
  question worth 20 marks they are recorded as 15.
\<close>

theorem oracle_marks_clamped_witness:
  \<open>fst (evalAnswer (envWith (replyOf ''{"marks": 15, "feedback": "Excellent"}'') 0) examA world0 answer1) =
     \<lparr>e_questionNumber = ''1-A'', e_marks = Fin 10, e_feedback = JString ''Excellent'',
      usedFallback = Some False\<rparr>
   \<and> fst (evalAnswer (envWith (replyOf ''{"marks": 15, "feedback": "Excellent"}'') 0) examTwenty world0 answer1) =
     \<lparr>e_questionNumber = ''1-A'', e_marks = Fin 15, e_feedback = JString ''Excellent'',
      usedFallback = Some False\<rparr>\<close>
proof -
  let ?t = \<open>''{"marks": 15, "feedback": "Excellent"}''\<close>
  let ?env = "envWith (replyOf ?t) 0"
  let ?parsed = "JObject [(''marks'', JNumber 15), (''feedback'', JString ''Excellent'')]"
  have f: "findQuestion examA (normOf (a_questionNumber answer1)) = Some question1" by code_simp
  have f': "findQuestion examTwenty (normOf (a_questionNumber answer1)) = Some questionTwenty"
    by code_simp
  have r: "fetch ?env (calls world0) q answer1 = Replied (Some ?t)" for q
    by (simp add: envWith_def replyOf_def)
  have tt: "trim ?t = ?t" by code_simp
  then have ne: "trim ?t \<noteq> []" by simp
  have p: "parseJSON ?env (trim ?t) = Some ?parsed"
    by (simp only: tt) (simp add: envWith_def parseExample_def)
  have mk: "property ?parsed ''marks'' = JNumber 15" by simp
  have fb: "truthy (property ?parsed ''feedback'')" by simp
  have mx: "maxMarks question1 = Some 10" by (simp add: question1_def)
  have mx': "maxMarks questionTwenty = Some 20" by (simp add: questionTwenty_def)
  have nz: "(10::rat) \<noteq> 0" "(20::rat) \<noteq> 0" by simp_all
  have raw: "rawOf (a_questionNumber answer1) = ''1-A''" by code_simp
  show ?thesis
    using oracle_marks_clamped [OF f r ne p mk fb mx nz(1)]
      oracle_marks_clamped [OF f' r ne p mk fb mx' nz(2)]
    by (simp add: raw)
qed

section \<open>One entry for each answer, in order\<close>

text \<open>
  C9. The evaluations reported are as many as the stored answers; the \<open>i\<close>-th entry is
  the one that the loop computes for the \<open>i\<close>-th answer and carries its trimmed,
  upper-cased identifier; the same list is stored with the student.
\<close>

theorem every_answer_one_evaluation:
  "length (r_evaluations (fst (evaluateStudent env exam st w))) = length (answers st)
   \<and> map e_questionNumber (r_evaluations (fst (evaluateStudent env exam st w))) =
       map (\<lambda>a. rawOf (a_questionNumber a)) (answers st)
   \<and> list_all2 (\<lambda>a e. \<exists>w'. e = fst (evalAnswer env exam w' a))
       (answers st) (r_evaluations (fst (evaluateStudent env exam st w)))
   \<and> evaluated (fst (snd (evaluateStudent env exam st w))) =
       r_evaluations (fst (evaluateStudent env exam st w))"
proof -
  let ?es = "fst (evalLoop env exam (answers st) [] w)"
  have pairs: "list_all2 (\<lambda>a e. \<exists>w'. e = fst (evalAnswer env exam w' a)) (answers st) ?es"
    by (rule evalLoop_all2) blast
  have names: "list_all2 (\<lambda>a e. e_questionNumber e = rawOf (a_questionNumber a)) (answers st) ?es"
    by (rule evalLoop_all2) (rule evalAnswer_questionNumber)
  have len: "length ?es = length (answers st)"
    using pairs by (simp add: list_all2_lengthD)
  have "map e_questionNumber ?es = map (\<lambda>a. rawOf (a_questionNumber a)) (answers st)"
    using names len by (auto simp: list_all2_conv_all_nth intro: nth_equalityI)
  then show ?thesis using pairs len
    by (simp add: evaluateStudent_reply evaluateStudent_saved)
qed

theorem every_answer_one_evaluation_witness:
  "length (answers studentR) = 2
   \<and> length (r_evaluations (fst (evaluateStudent (envWith Rejected 0) examA studentR world0))) = 2
   \<and> map e_questionNumber
         (r_evaluations (fst (evaluateStudent (envWith Rejected 0) examA studentR world0))) =
       [''1-A'', ''2'']"
proof -
  have n: "length (answers studentR) = 2" by (simp add: studentR_def)
  have r: "map (\<lambda>a. rawOf (a_questionNumber a)) (answers studentR) = [''1-A'', ''2'']"
    by code_simp
  show ?thesis
    using every_answer_one_evaluation [of "envWith Rejected 0" examA studentR world0]
    by (simp only: n r)
qed

section \<open>Bounds on the marks\<close>

lemma marksBounded_evalAnswer:
  "marksBounded env exam w a (fst (evalAnswer env exam w a))"
proof (cases "findQuestion exam (normOf (a_questionNumber a))")
  case None
  then show ?thesis by (simp add: marksBounded_def evalAnswer_unmatched)
next
  case (Some q)
  show ?thesis
  proof (cases "maximumOf q")
    case None
    then show ?thesis by (simp add: marksBounded_def Some)
  next
    case m: (Some m)
    then have mo: "maxOf q = Some m" by (simp add: maxOf_maximumOf)
    show ?thesis
    proof (cases "gradingFailure env w q a")
      case True
      have bounds: "unitRandom env \<and> wholeMax m \<longrightarrow>
          0 \<le> \<lfloor>random env (draws w) * (m + 1)\<rfloor> \<and> of_int \<lfloor>random env (draws w) * (m + 1)\<rfloor> \<le> m"
        using random_floor_bounds [of "random env (draws w)" m] by (simp add: unitRandom_def)
      show ?thesis
        using evalAnswer_failure [OF Some True] bounds
        by (simp add: marksBounded_def Some m mo True getRandomMarks_Some)
    next
      case False
      from evalAnswer_success [OF Some False] obtain p where
        p: "oracleMarks env w q a = Some p"
        and u: "usedFallback (fst (evalAnswer env exam w a)) = Some False"
        and v: "e_marks (fst (evalAnswer env exam w a)) = jsmin (Fin p) (toNumber (maxOf q))"
        by blast
      show ?thesis by (simp add: marksBounded_def Some m mo False p u v)
    qed
  qed
qed

text \<open>
  C1, as the code has it. Every entry has marks 0 when no question matched. When the
  matched question has a numeric maximum, the marks after a successful reply are the
  smaller of the parsed marks and the maximum: at most the maximum whatever number the
  scoring service returns, and not negative exactly when neither that number nor the
  maximum is; after a grading failure they are the floor of the draw times the maximum
  plus one, between 0 and the maximum when it is whole and not negative. This holds for
  each turn of the loop and so for every entry of the reported list.
\<close>

theorem marks_bounds:
  "marksBounded env exam w a (fst (evalAnswer env exam w a))
   \<and> list_all2 (\<lambda>a e. \<exists>w'. marksBounded env exam w' a e) (answers st)
        (r_evaluations (fst (evaluateStudent env exam st w0)))"
proof -
  have "list_all2 (\<lambda>a e. \<exists>w'. marksBounded env exam w' a e) (answers st)
      (fst (evalLoop env exam (answers st) [] w0))"
    by (rule evalLoop_all2) (blast intro: marksBounded_evalAnswer)
  then show ?thesis by (simp add: evaluateStudent_reply marksBounded_evalAnswer)
qed

text \<open>
  Scenario D with a second, unmatched answer: marks of 15 against a maximum of 10 are
  recorded as 10, the unmatched answer gets 0.
\<close>

theorem marks_bounds_witness:
  \<open>marksBounded (envWith (replyOf ''{"marks": 15, "feedback": "Excellent"}'') 0) examA world0 answer1
     (fst (evalAnswer (envWith (replyOf ''{"marks": 15, "feedback": "Excellent"}'') 0) examA world0 answer1))
   \<and> oracleMarks (envWith (replyOf ''{"marks": 15, "feedback": "Excellent"}'') 0) world0 question1 answer1
       = Some 15
   \<and> maxMarks question1 = Some 10
   \<and> map e_marks (r_evaluations (fst (evaluateStudent
         (envWith (replyOf ''{"marks": 15, "feedback": "Excellent"}'') 0) examA studentR world0)))
       = [Fin 10, Fin 0]
   \<and> list_all2 (\<lambda>a e. \<exists>w'. marksBounded (envWith (replyOf ''{"marks": 15, "feedback": "Excellent"}'') 0) examA w' a e)
        (answers studentR)
        (r_evaluations (fst (evaluateStudent
          (envWith (replyOf ''{"marks": 15, "feedback": "Excellent"}'') 0) examA studentR world0)))\<close>
proof -
  let ?env = \<open>envWith (replyOf ''{"marks": 15, "feedback": "Excellent"}'') 0\<close>
  have o: "oracleMarks ?env world0 question1 answer1 = Some 15" by code_simp
  have m: "maxMarks question1 = Some 10" by (simp add: question1_def)
  have v: "map e_marks (r_evaluations (fst (evaluateStudent ?env examA studentR world0)))
      = [Fin 10, Fin 0]" by code_simp
  show ?thesis
    using marks_bounds [of ?env examA world0 answer1 studentR world0] o m v by (intro conjI) simp_all
qed

text \<open>
  The lower bound fails on the path of a successful reply: marks of \<open>-5\<close> for the
  ten-mark question are recorded as they are.
\<close>

theorem negative_marks_counterexample:
  \<open>r_evaluations (fst (evaluateStudent
       (envWith (replyOf ''{"marks": -5, "feedback": "Poor"}'') 0) examA studentR world0)) =
     [\<lparr>e_questionNumber = ''1-A'', e_marks = Fin (- 5), e_feedback = JString ''Poor'',
        usedFallback = Some False\<rparr>,
      \<lparr>e_questionNumber = ''2'', e_marks = Fin 0,
        e_feedback = JString ''Question not found in exam config.'', usedFallback = None\<rparr>]
   \<and> \<not> jsge (Fin (- 5)) (Fin 0)\<close>
  by code_simp

section \<open>The verdict\<close>

text \<open>
  C5. The result reported and stored is \<open>verdict\<close> of the sum of the reported marks and
  the pass mark of the exam, and nothing else; it is \<open>Pass\<close> exactly when the total is
  at least the pass mark, so a total equal to the pass mark passes.
\<close>

theorem verdict_inclusive:
  "r_result (fst (evaluateStudent env exam st w)) =
     verdict (sumMarks (r_evaluations (fst (evaluateStudent env exam st w)))) (passMarks exam)
   \<and> (r_result (fst (evaluateStudent env exam st w)) = ''Pass'') =
       jsge (r_totalMarks (fst (evaluateStudent env exam st w))) (toNumber (passMarks exam))
   \<and> result (fst (snd (evaluateStudent env exam st w))) =
       r_result (fst (evaluateStudent env exam st w))
   \<and> (verdict (Fin t) (Some p) = ''Pass'') = (p \<le> t)
   \<and> verdict (Fin p) (Some p) = ''Pass''"
  by (simp add: evaluateStudent_reply evaluateStudent_saved verdict_def)


text \<open>The boundary: five marks against a pass mark of five.\<close>

theorem verdict_inclusive_witness:
  "passMarks examA = Some 5
   \<and> r_totalMarks (fst (evaluateStudent (envWith Rejected (1 / 2)) examA studentR world0)) = Fin 5
   \<and> r_result (fst (evaluateStudent (envWith Rejected (1 / 2)) examA studentR world0)) = ''Pass''"
proof -
  have p: "passMarks examA = Some 5" by (simp add: examA_def)
  have t: "r_totalMarks (fst (evaluateStudent (envWith Rejected (1 / 2)) examA studentR world0)) = Fin 5"
    by code_simp
  have "(r_result (fst (evaluateStudent (envWith Rejected (1 / 2)) examA studentR world0)) = ''Pass'') =
      jsge (r_totalMarks (fst (evaluateStudent (envWith Rejected (1 / 2)) examA studentR world0)))
        (toNumber (passMarks examA))"
    using verdict_inclusive [of "envWith Rejected (1 / 2)" examA studentR world0] by blast
  then show ?thesis by (simp add: p t)
qed

section \<open>Storage and the controller\<close>

lemma findOne_rollNumber: "findOne rn ss = Some st \<Longrightarrow> rollNumber st = rn"
  by (auto simp: findOne_def find_Some_iff)

lemma findById_id: "findById i xs = Some x \<Longrightarrow> x_id x = i"
  by (auto simp: findById_def find_Some_iff)

lemma findOne_save:
  assumes "findOne rn ss = Some st" and "rollNumber st' = rn"
  shows "findOne rn (save st' ss) = Some st'"
  using assms by (induction ss) (auto simp: findOne_def split: if_splits)

lemma bindExam_rollNumber: "rollNumber (bindExam st e) = rollNumber st"
  by (simp add: bindExam_def)

lemma evaluateStudent_rollNumber:
  "rollNumber (fst (snd (evaluateStudent env exam st w))) = rollNumber st"
  by (simp add: evaluateStudent_saved)

lemma evaluateAnswers_accepted:
  assumes "truthyStr (b_rollNumber req)" and "truthyStr (b_examId req)"
    and "isValid env (orEmpty (b_examId req))"
    and "findOne (orEmpty (b_rollNumber req)) (students d) = Some st"
    and "findById (orEmpty (examId (bindExam st (b_examId req)))) (exams d) = Some ex"
  shows "evaluateAnswers env d w req =
     (Json200 (fst (evaluateStudent env ex (bindExam st (b_examId req)) w)),
      d\<lparr>students := save (fst (snd (evaluateStudent env ex (bindExam st (b_examId req)) w))) (students d)\<rparr>,
      snd (snd (evaluateStudent env ex (bindExam st (b_examId req)) w)))"
  using assms by (simp add: evaluateAnswers_def Let_def split: prod.splits)

lemma evaluateAnswers_Json200:
  assumes "evaluateAnswers env d w req = (Json200 r, d', w')"
  shows "\<exists>st ex. truthyStr (b_rollNumber req) \<and> truthyStr (b_examId req)
     \<and> isValid env (orEmpty (b_examId req))
     \<and> findOne (orEmpty (b_rollNumber req)) (students d) = Some st
     \<and> findById (orEmpty (examId (bindExam st (b_examId req)))) (exams d) = Some ex"
  using assms
  by (auto simp: evaluateAnswers_def Let_def split: if_splits option.splits prod.splits)

section \<open>The total\<close>

lemma foldl_marks_finite:
  "map e_marks es = map Fin vs \<Longrightarrow>
     foldl (\<lambda>acc e. jsadd acc (e_marks e)) (Fin a) es = Fin (a + sum_list vs)"
proof (induction es arbitrary: a vs)
  case Nil
  then show ?case by simp
next
  case (Cons e es)
  then obtain v vs' where vs: "vs = v # vs'" and e: "e_marks e = Fin v"
    and rest: "map e_marks es = map Fin vs'" by (cases vs) auto
  show ?case using Cons.IH [OF rest, of "a + v"] by (simp add: vs e add.assoc)
qed

lemma foldl_marks_NaN: "foldl (\<lambda>acc e. jsadd acc (e_marks e)) NaN es = NaN"
  by (induction es) simp_all

lemma foldl_marks_has_NaN:
  "NaN \<in> set (map e_marks es) \<Longrightarrow> foldl (\<lambda>acc e. jsadd acc (e_marks e)) x es = NaN"
proof (induction es arbitrary: x)
  case Nil
  then show ?case by simp
next
  case (Cons e es)
  show ?case
  proof (cases "e_marks e")
    case NaN
    then show ?thesis by (cases x) (simp_all add: foldl_marks_NaN)
  next
    case (Fin v)
    with Cons.prems have "NaN \<in> set (map e_marks es)" by auto
    then show ?thesis using Cons.IH by simp
  qed
qed

text \<open>
  C4. The total reported is the sum of the marks of the reported evaluations, taken from
  0 in list order: the arithmetic sum when all marks are numbers. The total and the list
  are what is stored with the student.
\<close>

theorem total_is_sum:
  assumes "evaluateAnswers env d w req = (Json200 r, d', w')"
  shows "r_totalMarks r = sumMarks (r_evaluations r)
    \<and> (\<forall>vs. map e_marks (r_evaluations r) = map Fin vs \<longrightarrow> r_totalMarks r = Fin (sum_list vs))
    \<and> (NaN \<in> set (map e_marks (r_evaluations r)) \<longrightarrow> r_totalMarks r = NaN)
    \<and> map_option totalMarks (findOne (orEmpty (b_rollNumber req)) (students d')) = Some (r_totalMarks r)
    \<and> map_option evaluated (findOne (orEmpty (b_rollNumber req)) (students d')) = Some (r_evaluations r)"
proof -
  from evaluateAnswers_Json200 [OF assms] obtain st ex where
    v: "truthyStr (b_rollNumber req)" "truthyStr (b_examId req)" "isValid env (orEmpty (b_examId req))"
    and st: "findOne (orEmpty (b_rollNumber req)) (students d) = Some st"
    and ex: "findById (orEmpty (examId (bindExam st (b_examId req)))) (exams d) = Some ex"
    by blast
  let ?run = "evaluateStudent env ex (bindExam st (b_examId req)) w"
  from evaluateAnswers_accepted [OF v st ex, of w] assms
  have r: "r = fst ?run" and d': "d' = d\<lparr>students := save (fst (snd ?run)) (students d)\<rparr>" by simp_all
  have rn: "rollNumber (fst (snd ?run)) = orEmpty (b_rollNumber req)"
    by (simp add: evaluateStudent_rollNumber bindExam_rollNumber findOne_rollNumber [OF st])
  have stored: "findOne (orEmpty (b_rollNumber req)) (students d') = Some (fst (snd ?run))"
    unfolding d' using findOne_save [OF st rn] by simp
  have tot: "r_totalMarks r = sumMarks (r_evaluations r)" by (simp add: r evaluateStudent_reply)
  have fin: "\<forall>vs. map e_marks (r_evaluations r) = map Fin vs \<longrightarrow> r_totalMarks r = Fin (sum_list vs)"
    using foldl_marks_finite [of "r_evaluations r" _ 0] by (simp add: tot sumMarks_def)
  have nan: "NaN \<in> set (map e_marks (r_evaluations r)) \<longrightarrow> r_totalMarks r = NaN"
    using foldl_marks_has_NaN [of "r_evaluations r"] by (simp add: tot sumMarks_def)
  have sv: "totalMarks (fst (snd ?run)) = r_totalMarks r" "evaluated (fst (snd ?run)) = r_evaluations r"
    by (simp_all add: r evaluateStudent_saved)
  show ?thesis using tot fin nan by (simp add: stored sv)
qed

theorem total_is_sum_witness:
  "evaluateAnswers (envWith Rejected (1 / 2)) dbR world0 (requestOf ''R1'' ''exam-a'') =
     (Json200 (fst (evaluateStudent (envWith Rejected (1 / 2)) examA studentR world0)),
      fst (snd (evaluateAnswers (envWith Rejected (1 / 2)) dbR world0 (requestOf ''R1'' ''exam-a''))),
      snd (snd (evaluateAnswers (envWith Rejected (1 / 2)) dbR world0 (requestOf ''R1'' ''exam-a''))))
   \<and> map e_marks (r_evaluations (fst (evaluateStudent (envWith Rejected (1 / 2)) examA studentR world0)))
       = map Fin [5, 0]
   \<and> r_totalMarks (fst (evaluateStudent (envWith Rejected (1 / 2)) examA studentR world0)) = Fin 5"
proof -
  let ?r = "fst (evaluateStudent (envWith Rejected (1 / 2)) examA studentR world0)"
  let ?run = "evaluateAnswers (envWith Rejected (1 / 2)) dbR world0 (requestOf ''R1'' ''exam-a'')"
  have h: "?run = (Json200 ?r, fst (snd ?run), snd (snd ?run))" by code_simp
  have m: "map e_marks (r_evaluations ?r) = map Fin [5, 0]" by code_simp
  have "r_totalMarks ?r = Fin (sum_list [5, 0])"
    using total_is_sum [OF h] m by blast
  then show ?thesis using h m by simp
qed

section \<open>The exam a student is bound to\<close>

text \<open>
  C3, as the code has it. A well-formed request for a stored student whose exam is
  stored is accepted, and the student is stored bound to the exam evaluated against. For
  a student with no exam bound that is the exam the request names. For a student
  already bound it is the exam bound before: the identifier in the request is not used.
\<close>

theorem exam_binding:
  assumes "truthyStr (b_rollNumber req)" and "truthyStr (b_examId req)"
    and "isValid env (orEmpty (b_examId req))"
    and "findOne (orEmpty (b_rollNumber req)) (students d) = Some st"
    and "findById (orEmpty (examId (bindExam st (b_examId req)))) (exams d) = Some ex"
  shows "fst (evaluateAnswers env d w req) =
           Json200 (fst (evaluateStudent env ex (bindExam st (b_examId req)) w))
    \<and> map_option examId
         (findOne (orEmpty (b_rollNumber req)) (students (fst (snd (evaluateAnswers env d w req)))))
         = Some (Some (x_id ex))
    \<and> (\<not> truthyStr (examId st) \<longrightarrow> Some (x_id ex) = b_examId req)
    \<and> (truthyStr (examId st) \<longrightarrow>
         Some (x_id ex) = examId st \<and> bindExam st (b_examId req) = st)"
proof -
  let ?run = "evaluateStudent env ex (bindExam st (b_examId req)) w"
  note acc = evaluateAnswers_accepted [OF assms, of w]
  have rn: "rollNumber (fst (snd ?run)) = orEmpty (b_rollNumber req)"
    by (simp add: evaluateStudent_rollNumber bindExam_rollNumber findOne_rollNumber [OF assms(4)])
  have stored: "findOne (orEmpty (b_rollNumber req)) (students (fst (snd (evaluateAnswers env d w req))))
      = Some (fst (snd ?run))"
    unfolding acc using findOne_save [OF assms(4) rn] by simp
  have id: "x_id ex = orEmpty (examId (bindExam st (b_examId req)))"
    using findById_id [OF assms(5)] .
  have unbound: "\<not> truthyStr (examId st) \<longrightarrow> Some (x_id ex) = b_examId req"
    using assms(2) by (cases "b_examId req") (auto simp: id bindExam_def)
  have bound: "truthyStr (examId st) \<longrightarrow> Some (x_id ex) = examId st \<and> bindExam st (b_examId req) = st"
    by (cases "examId st") (auto simp: id bindExam_def)
  have accepted: "fst (evaluateAnswers env d w req) = Json200 (fst ?run)"
    by (simp add: acc)
  have kept: "map_option examId
      (findOne (orEmpty (b_rollNumber req)) (students (fst (snd (evaluateAnswers env d w req)))))
      = Some (Some (x_id ex))"
    by (simp only: stored) (simp add: evaluateStudent_saved)
  show ?thesis using accepted kept unbound bound by blast
qed

text \<open>
  The two calls in a row: the first binds the student to \<open>exam-a\<close>, the second, which
  names \<open>exam-b\<close>, is accepted and evaluates against \<open>exam-a\<close> again.
\<close>

theorem exam_binding_witness:
  "examId studentR = None
   \<and> map_option examId (findOne ''R1'' (students (fst (snd afterFirst)))) = Some (Some ''exam-a'')
   \<and> fst afterSecond = Json200 (fst (evaluateStudent (envWith Rejected 0) examA
        (studentR\<lparr>evaluated := r_evaluations (fst (evaluateStudent (envWith Rejected 0) examA studentR world0)),
           totalMarks := Fin 0, result := ''Fail'', examId := Some ''exam-a''\<rparr>) (snd (snd afterFirst))))
   \<and> map_option examId (findOne ''R1'' (students (fst (snd afterSecond)))) = Some (Some ''exam-a'')"
proof -
  let ?env = "envWith Rejected 0"
  let ?r1 = "requestOf ''R1'' ''exam-a''"
  let ?r2 = "requestOf ''R1'' ''exam-b''"
  let ?d1 = "fst (snd afterFirst)"
  let ?w1 = "snd (snd afterFirst)"
  let ?st1 = "studentR\<lparr>evaluated := r_evaluations (fst (evaluateStudent ?env examA studentR world0)),
           totalMarks := Fin 0, result := ''Fail'', examId := Some ''exam-a''\<rparr>"
  have t1: "truthyStr (b_rollNumber ?r1)" "truthyStr (b_examId ?r1)"
    and t2: "truthyStr (b_rollNumber ?r2)" "truthyStr (b_examId ?r2)"
    by (simp_all add: requestOf_def)
  have v1: "isValid ?env (orEmpty (b_examId ?r1))" and v2: "isValid ?env (orEmpty (b_examId ?r2))"
    by (simp_all add: envWith_def requestOf_def)
  have s1: "findOne (orEmpty (b_rollNumber ?r1)) (students dbR) = Some studentR" by code_simp
  have x1: "findById (orEmpty (examId (bindExam studentR (b_examId ?r1)))) (exams dbR) = Some examA"
    by code_simp
  have s2: "findOne (orEmpty (b_rollNumber ?r2)) (students ?d1) = Some ?st1" by code_simp
  have x2: "findById (orEmpty (examId (bindExam ?st1 (b_examId ?r2)))) (exams ?d1) = Some examA"
    by code_simp
  have b2: "bindExam ?st1 (b_examId ?r2) = ?st1" by (simp add: bindExam_def)
  have ida: "x_id examA = ''exam-a''" by (simp add: examA_def)
  have rn: "orEmpty (b_rollNumber ?r1) = ''R1''" "orEmpty (b_rollNumber ?r2) = ''R1''"
    by (simp_all add: requestOf_def)
  have u: "examId studentR = None" by (simp add: studentR_def)
  note first = exam_binding [OF t1 v1 s1 x1, of world0,
      unfolded ida rn afterFirst_def [symmetric]]
  note second = exam_binding [OF t2 v2 s2 x2, of ?w1,
      unfolded b2 ida rn afterSecond_def [symmetric]]
  show ?thesis
    using u first [THEN conjunct2, THEN conjunct1] second [THEN conjunct1]
      second [THEN conjunct2, THEN conjunct1]
    by (intro conjI)
qed

text \<open>
  A later call that names another exam does not rebind: after the second call the
  student is still bound to \<open>exam-a\<close> and has been graded against it (\<open>Fail\<close>, where
  \<open>exam-b\<close> would give \<open>Pass\<close>).
\<close>

theorem rebinding_counterexample:
  "fst afterFirst = Json200 (fst (evaluateStudent (envWith Rejected 0) examA studentR world0))
   \<and> r_result (fst (evaluateStudent (envWith Rejected 0) examB studentR world0)) = ''Pass''
   \<and> map_option r_result (case fst afterSecond of Json200 r \<Rightarrow> Some r | _ \<Rightarrow> None) = Some ''Fail''
   \<and> map_option examId (findOne ''R1'' (students (fst (snd afterSecond)))) \<noteq> Some (Some ''exam-b'')"
  by code_simp

section \<open>The route parameter\<close>

text \<open>
  C10. Two requests with the same \<open>rollNumber\<close> and \<open>examId\<close> in the body get the same
  response and leave the same storage and world, whatever their route parameters.
\<close>

theorem route_parameter_ignored:
  assumes "b_rollNumber r1 = b_rollNumber r2" and "b_examId r1 = b_examId r2"
  shows "evaluateAnswers env d w r1 = evaluateAnswers env d w r2"
  unfolding evaluateAnswers_def assms by (rule refl)

theorem route_parameter_ignored_witness:
  "p_rollNumber (requestOf ''R1'' ''exam-a'') \<noteq> p_rollNumber (requestOf ''R2'' ''exam-a'')
   \<and> b_rollNumber (requestOf ''R1'' ''exam-a'') = b_rollNumber (requestOf ''R2'' ''exam-a'')
   \<and> b_examId (requestOf ''R1'' ''exam-a'') = b_examId (requestOf ''R2'' ''exam-a'')
   \<and> evaluateAnswers (envWith Rejected 0) dbR world0 (requestOf ''R2'' ''exam-a'') = afterFirst"
proof -
  have a: "b_rollNumber (requestOf ''R1'' ''exam-a'') = b_rollNumber (requestOf ''R2'' ''exam-a'')"
    and b: "b_examId (requestOf ''R1'' ''exam-a'') = b_examId (requestOf ''R2'' ''exam-a'')"
    by (simp_all add: requestOf_def)
  show ?thesis
    using route_parameter_ignored [OF a b, of "envWith Rejected 0" dbR world0]
    by (simp add: afterFirst_def requestOf_def)
qed

end
